theory Spec2Isabelle
  imports Main "HOL-Library.Word"
begin

section \<open>Machine types\<close>

text \<open>
  The C++ type \<open>int\<close> of strides, coordinates and offsets is a 32-bit two's complement
  integer: \<open>+\<close> and \<open>*\<close> on \<open>int32\<close> wrap around, which is what the device computes
  (C++ leaves the result of a signed overflow open); \<open>sint\<close> reads the signed value.
  Descriptor strides are \<open>int64_t\<close>, addresses (\<open>const std::byte *\<close>) are 64-bit.
\<close>

type_synonym int32 = "32 word"
type_synonym int64 = "64 word"
type_synonym addr = "64 word"
type_synonym byte = "8 word"

datatype failure = CompileError | Abort

text \<open>
  Modelled from the spec: \<open>TypeTraits<int>::max\<close> (\<open>TypeTraits.hpp\<close> is not among the
  sources), the upper end of the 32-bit signed range.
\<close>

definition TypeTraits_int_max :: int where
  "TypeTraits_int_max = 2147483647"

text \<open>
  Modelled from the spec: \<open>NVCV_ASSERT\<close> (the macro of \<open>util/Assert.h\<close>, which is not
  among the sources).  A violated precondition is treated as a defect: the assertion
  aborts instead of returning a recoverable error.
\<close>

definition NVCV_ASSERT :: "bool \<Rightarrow> failure + unit" where
  "NVCV_ASSERT c = (if c then Inr () else Inl Abort)"

text \<open>A \<open>static_assert\<close>: the instantiation is rejected when the condition is false.\<close>

definition static_assert :: "bool \<Rightarrow> failure + unit" where
  "static_assert c = (if c then Inr () else Inl CompileError)"

section \<open>The class template \<open>TensorWrap<const T, Strides...>\<close>\<close>

text \<open>
  The template parameter pack \<open>Strides\<close> is a list of \<open>int\<close>, first (slowest changing)
  dimension first; \<open>-1\<close> marks a run-time pitch.  It belongs to the type, so every
  member function of the model takes it as its first argument.
\<close>

definition kNumDimensions :: "int32 list \<Rightarrow> nat" where
  "kNumDimensions Strides = length Strides"

definition kVariableStrides :: "int32 list \<Rightarrow> nat" where
  "kVariableStrides Strides = sum_list (map (\<lambda>s. if s = - 1 then 1 else 0) Strides)"

definition kConstantStrides :: "int32 list \<Rightarrow> nat" where
  "kConstantStrides Strides = kNumDimensions Strides - kVariableStrides Strides"

text \<open>The data members: \<open>m_data\<close> and the array \<open>int m_strides[kVariableStrides]\<close>.\<close>

record TensorWrap =
  m_data :: addr
  m_strides :: "int32 list"

text \<open>
  \<open>TensorWrap() = default\<close> with the default member initialisers
  \<open>m_data = nullptr\<close> and \<open>m_strides = {}\<close>.
\<close>

definition TensorWrap_default :: "int32 list \<Rightarrow> TensorWrap" where
  "TensorWrap_default Strides =
     \<lparr>m_data = 0, m_strides = replicate (kVariableStrides Strides) 0\<rparr>"

text \<open>\<open>TensorWrap(const DataType *data, Args... strides)\<close>\<close>

definition TensorWrap_data :: "int32 list \<Rightarrow> addr \<Rightarrow> int32 list \<Rightarrow> failure + TensorWrap" where
  "TensorWrap_data Strides data strides =
     (case static_assert (length strides = kVariableStrides Strides) of
        Inl e \<Rightarrow> Inl e
      | Inr _ \<Rightarrow> Inr \<lparr>m_data = data, m_strides = strides\<rparr>)"

text \<open>
  Modelled from the spec: the strided-image descriptor (\<open>nvcv/IImageData.hpp\<close> is not
  among the sources) exposes a plane with a base address and a row stride in bytes, an
  \<open>int32_t\<close>.
\<close>

record ImagePlaneStrided =
  basePtr :: addr
  rowStride :: int32

text \<open>
  \<open>TensorWrap(const IImageDataStridedCuda &image)\<close>.  The constructor reads
  \<open>image.plane(0)\<close> only; that plane is the argument of the model.
\<close>

definition TensorWrap_image :: "int32 list \<Rightarrow> ImagePlaneStrided \<Rightarrow> failure + TensorWrap" where
  "TensorWrap_image Strides plane0 =
     (case static_assert (kVariableStrides Strides = 1 \<and> kNumDimensions Strides = 2) of
        Inl e \<Rightarrow> Inl e
      | Inr _ \<Rightarrow>
          (let w = TensorWrap_default Strides;
               w = w\<lparr>m_data := basePtr plane0\<rparr>;
               w = w\<lparr>m_strides := (m_strides w)[0 := rowStride plane0]\<rparr>
           in Inr w))"

text \<open>
  Modelled from the spec: the strided-tensor descriptor (\<open>nvcv/ITensorData.hpp\<close> is not
  among the sources) exposes its rank, a byte stride per axis and a base address.  The
  stride is an \<open>int64_t\<close>: the constructor compares it with \<open>TypeTraits<int>::max\<close>
  before it narrows it to \<open>int\<close>, and the factory functions cast it with
  \<open>static_cast<int>\<close>.  The rank is the number of axes that have a stride.
\<close>

record ITensorDataStridedCuda =
  tensor_basePtr :: addr
  tensor_strides :: "int64 list"

definition rank :: "ITensorDataStridedCuda \<Rightarrow> nat" where
  "rank tensor = length (tensor_strides tensor)"

definition stride :: "ITensorDataStridedCuda \<Rightarrow> nat \<Rightarrow> int64" where
  "stride tensor i = tensor_strides tensor ! i"

text \<open>
  \<open>TensorWrap(const ITensorDataStridedCuda &tensor)\<close>.
  The loop \<open>for (int i = 0; i < kNumDimensions; ++i)\<close> of the constructor, from
  index \<open>i\<close> on, on the array \<open>m_strides\<close>.  The comparison with \<open>kStride[i]\<close> is made
  in \<open>int64_t\<close> (the constant is sign-extended), the one with \<open>TypeTraits<int>::max\<close>
  is signed, and the assignment to \<open>m_strides[i]\<close> narrows to 32 bits.
\<close>

function tensor_loop ::
  "int32 list \<Rightarrow> ITensorDataStridedCuda \<Rightarrow> nat \<Rightarrow> int32 list \<Rightarrow> failure + int32 list" where
  "tensor_loop kStride tensor i strides =
     (if i < kNumDimensions kStride then
        (if kStride ! i \<noteq> - 1 then
           (case NVCV_ASSERT (stride tensor i = scast (kStride ! i)) of
              Inl e \<Rightarrow> Inl e
            | Inr _ \<Rightarrow> tensor_loop kStride tensor (Suc i) strides)
         else if i < kVariableStrides kStride then
           (case NVCV_ASSERT (sint (stride tensor i) \<le> TypeTraits_int_max) of
              Inl e \<Rightarrow> Inl e
            | Inr _ \<Rightarrow> tensor_loop kStride tensor (Suc i) (strides[i := scast (stride tensor i)]))
         else tensor_loop kStride tensor (Suc i) strides)
      else Inr strides)"
  by pat_completeness auto
termination
  by (relation "measure (\<lambda>(kStride, tensor, i, strides). kNumDimensions kStride - i)") auto

declare tensor_loop.simps [simp del]

definition TensorWrap_tensor :: "int32 list \<Rightarrow> ITensorDataStridedCuda \<Rightarrow> failure + TensorWrap" where
  "TensorWrap_tensor Strides tensor =
     (case NVCV_ASSERT (rank tensor \<ge> kNumDimensions Strides) of
        Inl e \<Rightarrow> Inl e
      | Inr _ \<Rightarrow>
          (let w = (TensorWrap_default Strides)\<lparr>m_data := tensor_basePtr tensor\<rparr>
           in case tensor_loop Strides tensor 0 (m_strides w) of
                Inl e \<Rightarrow> Inl e
              | Inr strides \<Rightarrow> Inr (w\<lparr>m_strides := strides\<rparr>)))"

text \<open>\<open>strides()\<close>\<close>

definition strides :: "TensorWrap \<Rightarrow> int32 list" where
  "strides w = m_strides w"

subsection \<open>\<open>doGetPtr\<close>, \<open>ptr\<close> and \<open>operator[]\<close>\<close>

text \<open>
  Both loops of \<open>doGetPtr\<close> have the body \<open>offset += coords[i] * a[i]\<close>, the first
  with \<open>a = m_strides\<close> and \<open>i\<close> from \<open>0\<close> to \<open>kVarSize\<close>, the second with
  \<open>a = kStride\<close> and \<open>i\<close> from \<open>kVariableStrides\<close> to \<open>kDimSize\<close>.
\<close>

function offset_loop :: "int32 list \<Rightarrow> int32 list \<Rightarrow> nat \<Rightarrow> nat \<Rightarrow> int32 \<Rightarrow> int32" where
  "offset_loop coords a i n offset =
     (if i < n then offset_loop coords a (Suc i) n (offset + coords ! i * a ! i) else offset)"
  by pat_completeness auto
termination
  by (relation "measure (\<lambda>(coords, a, i, n, offset). n - i)") auto

declare offset_loop.simps [simp del]

text \<open>
  \<open>m_data + offset\<close> on a \<open>const std::byte *\<close>: the \<open>int\<close> offset is sign-extended to
  the width of an address.
\<close>

definition doGetPtr :: "int32 list \<Rightarrow> TensorWrap \<Rightarrow> int32 list \<Rightarrow> failure + addr" where
  "doGetPtr Strides w c =
     (case static_assert (length c \<le> kNumDimensions Strides) of
        Inl e \<Rightarrow> Inl e
      | Inr _ \<Rightarrow>
          (let kArgSize = length c;
               kVarSize = (if kArgSize < kVariableStrides Strides then kArgSize
                           else kVariableStrides Strides);
               kDimSize = (if kArgSize < kNumDimensions Strides then kArgSize
                           else kNumDimensions Strides);
               kStride = Strides;
               coords = c;
               offset = 0;
               offset = offset_loop coords (m_strides w) 0 kVarSize offset;
               offset = offset_loop coords kStride (kVariableStrides Strides) kDimSize offset
           in Inr (m_data w + scast offset)))"

definition ptr :: "int32 list \<Rightarrow> TensorWrap \<Rightarrow> int32 list \<Rightarrow> failure + addr" where
  "ptr Strides w c = doGetPtr Strides w c"

text \<open>
  The coordinate argument of \<open>operator[]\<close>: a plain \<open>int\<close>, or one of the vector types
  \<open>int1\<close> to \<open>int4\<close> with its components \<open>x\<close>, \<open>y\<close>, \<open>z\<close>, \<open>w\<close> in this order.  The
  model returns the address the returned reference is bound to.
\<close>

datatype DimType =
    plain_int int32
  | int1 int32
  | int2 int32 int32
  | int3 int32 int32 int32
  | int4 int32 int32 int32 int32

fun subscript :: "int32 list \<Rightarrow> TensorWrap \<Rightarrow> DimType \<Rightarrow> failure + addr" where
  "subscript Strides w (plain_int c) = doGetPtr Strides w [c]"
| "subscript Strides w (int1 x) = doGetPtr Strides w [x]"
| "subscript Strides w (int2 x y) = doGetPtr Strides w [y, x]"
| "subscript Strides w (int3 x y z) = doGetPtr Strides w [z, y, x]"
| "subscript Strides w (int4 x y z w') = doGetPtr Strides w [w', z, y, x]"

section \<open>The class template \<open>TensorWrap<T, Strides...>\<close> for a non-constant \<open>T\<close>\<close>

text \<open>
  The derived class has the data members of its base.  A \<open>const_cast\<close> changes the type
  of a pointer and leaves its address as it is.
\<close>

definition const_cast :: "addr \<Rightarrow> addr" where
  "const_cast p = p"

definition doGetPtr_mutable :: "int32 list \<Rightarrow> TensorWrap \<Rightarrow> int32 list \<Rightarrow> failure + addr" where
  "doGetPtr_mutable Strides w c =
     (case doGetPtr Strides w c of Inl e \<Rightarrow> Inl e | Inr p \<Rightarrow> Inr (const_cast p))"

definition ptr_mutable :: "int32 list \<Rightarrow> TensorWrap \<Rightarrow> int32 list \<Rightarrow> failure + addr" where
  "ptr_mutable Strides w c = doGetPtr_mutable Strides w c"

fun subscript_mutable :: "int32 list \<Rightarrow> TensorWrap \<Rightarrow> DimType \<Rightarrow> failure + addr" where
  "subscript_mutable Strides w (plain_int c) = doGetPtr_mutable Strides w [c]"
| "subscript_mutable Strides w (int1 x) = doGetPtr_mutable Strides w [x]"
| "subscript_mutable Strides w (int2 x y) = doGetPtr_mutable Strides w [y, x]"
| "subscript_mutable Strides w (int3 x y z) = doGetPtr_mutable Strides w [z, y, x]"
| "subscript_mutable Strides w (int4 x y z w') = doGetPtr_mutable Strides w [w', z, y, x]"

text \<open>The shortcuts \<open>Tensor1DWrap<T>\<close> to \<open>Tensor4DWrap<T>\<close>, for \<open>sizeof(T)\<close>.\<close>

definition Tensor1DWrap :: "int32 \<Rightarrow> int32 list" where
  "Tensor1DWrap sizeof_T = [sizeof_T]"

definition Tensor2DWrap :: "int32 \<Rightarrow> int32 list" where
  "Tensor2DWrap sizeof_T = [- 1, sizeof_T]"

definition Tensor3DWrap :: "int32 \<Rightarrow> int32 list" where
  "Tensor3DWrap sizeof_T = [- 1, - 1, sizeof_T]"

definition Tensor4DWrap :: "int32 \<Rightarrow> int32 list" where
  "Tensor4DWrap sizeof_T = [- 1, - 1, - 1, sizeof_T]"

section \<open>Memory\<close>

text \<open>
  Device memory is a map from addresses to bytes.  A value of the element type \<open>T\<close> is
  its object representation, \<open>sizeof(T)\<close> bytes; reading through the reference that
  \<open>operator[]\<close> returns loads them from the address on, and an assignment through the
  reference of the mutable wrap stores them.
\<close>

type_synonym memory = "addr \<Rightarrow> byte"

fun load :: "memory \<Rightarrow> addr \<Rightarrow> nat \<Rightarrow> byte list" where
  "load mem p 0 = []"
| "load mem p (Suc n) = mem p # load mem (p + 1) n"

fun store :: "memory \<Rightarrow> addr \<Rightarrow> byte list \<Rightarrow> memory" where
  "store mem p [] = mem"
| "store mem p (b # bs) = store (mem(p := b)) (p + 1) bs"

definition read_at :: "int32 list \<Rightarrow> TensorWrap \<Rightarrow> nat \<Rightarrow> memory \<Rightarrow> DimType \<Rightarrow> failure + byte list" where
  "read_at Strides w sizeof_T mem c =
     (case subscript Strides w c of Inl e \<Rightarrow> Inl e | Inr p \<Rightarrow> Inr (load mem p sizeof_T))"

definition write_at :: "int32 list \<Rightarrow> TensorWrap \<Rightarrow> memory \<Rightarrow> DimType \<Rightarrow> byte list \<Rightarrow> failure + memory" where
  "write_at Strides w mem c v =
     (case subscript_mutable Strides w c of Inl e \<Rightarrow> Inl e | Inr p \<Rightarrow> Inr (store mem p v))"

section \<open>Notions used in the statements\<close>

text \<open>
  The stride that \<open>doGetPtr\<close> applies to coordinate \<open>i\<close>: the stored run-time stride for
  \<open>i < kVariableStrides\<close>, the compile-time constant \<open>kStride[i]\<close> otherwise.
\<close>

definition stride_at :: "int32 list \<Rightarrow> TensorWrap \<Rightarrow> nat \<Rightarrow> int32" where
  "stride_at Strides w i =
     (if i < kVariableStrides Strides then m_strides w ! i else Strides ! i)"

text \<open>
  One iteration of the loop of the tensor constructor: the condition under which
  neither assertion of slot \<open>i\<close> fails, and the array after the iteration.
\<close>

definition slot_ok :: "int32 list \<Rightarrow> ITensorDataStridedCuda \<Rightarrow> nat \<Rightarrow> bool" where
  "slot_ok kStride tensor i =
     (if kStride ! i \<noteq> - 1 then stride tensor i = scast (kStride ! i)
      else if i < kVariableStrides kStride then sint (stride tensor i) \<le> TypeTraits_int_max
      else True)"

definition slot_store :: "int32 list \<Rightarrow> ITensorDataStridedCuda \<Rightarrow> nat \<Rightarrow> int32 list \<Rightarrow> int32 list" where
  "slot_store kStride tensor i ms =
     (if kStride ! i = - 1 \<and> i < kVariableStrides kStride
      then ms[i := scast (stride tensor i)] else ms)"

section \<open>The offset computed by \<open>doGetPtr\<close>\<close>

lemma offset_loop_sum:
  "offset_loop coords a i n offset = offset + (\<Sum>j = i..<n. coords ! j * a ! j)"
proof (induction "n - i" arbitrary: i offset)
  case 0
  then show ?case
    by (simp add: offset_loop.simps)
next
  case (Suc d)
  then have "i < n" and "d = n - Suc i"
    by simp_all
  then show ?case
    using Suc.hyps(1) [of "Suc i" "offset + coords ! i * a ! i"]
    by (simp add: offset_loop.simps [of coords a i] sum.atLeast_Suc_lessThan add.assoc)
qed

lemma kVariableStrides_le: "kVariableStrides Strides \<le> kNumDimensions Strides"
  unfolding kVariableStrides_def kNumDimensions_def
  by (induction Strides) auto

lemma offset_loops_join:
  assumes "k \<le> kNumDimensions Strides"
  shows "(\<Sum>j = 0..<min k (kVariableStrides Strides). c ! j * m_strides w ! j)
         + (\<Sum>j = kVariableStrides Strides..<k. c ! j * Strides ! j)
       = (\<Sum>j<k. c ! j * stride_at Strides w j)"
proof (cases "k \<le> kVariableStrides Strides")
  case True
  then show ?thesis
    by (simp add: min_absorb1 stride_at_def lessThan_atLeast0)
next
  case False
  then have le: "kVariableStrides Strides \<le> k" by simp
  have "(\<Sum>j<k. c ! j * stride_at Strides w j)
        = (\<Sum>j = 0..<kVariableStrides Strides. c ! j * stride_at Strides w j)
          + (\<Sum>j = kVariableStrides Strides..<k. c ! j * stride_at Strides w j)"
    using le by (simp add: lessThan_atLeast0 sum.atLeastLessThan_concat)
  then show ?thesis
    using le by (simp add: min_absorb2 stride_at_def)
qed

lemma doGetPtr_offset:
  assumes "length c \<le> kNumDimensions Strides"
  shows "doGetPtr Strides w c
         = Inr (m_data w + scast (\<Sum>j<length c. c ! j * stride_at Strides w j))"
proof -
  have "doGetPtr Strides w c
        = Inr (m_data w + scast
            ((\<Sum>j = 0..<min (length c) (kVariableStrides Strides). c ! j * m_strides w ! j)
             + (\<Sum>j = kVariableStrides Strides..<length c. c ! j * Strides ! j)))"
    using assms
    by (simp add: doGetPtr_def static_assert_def offset_loop_sum min_def Let_def)
  then show ?thesis
    by (simp only: offset_loops_join [OF assms])
qed

section \<open>The loop of the tensor constructor\<close>

lemma tensor_loop_step:
  assumes "i < kNumDimensions kStride"
  shows "tensor_loop kStride tensor i ms =
           (if slot_ok kStride tensor i
            then tensor_loop kStride tensor (Suc i) (slot_store kStride tensor i ms)
            else Inl Abort)"
  using assms
  by (subst tensor_loop.simps) (simp add: slot_ok_def slot_store_def NVCV_ASSERT_def)

lemma tensor_loop_done:
  assumes "kNumDimensions kStride \<le> i"
  shows "tensor_loop kStride tensor i ms = Inr ms"
  using assms by (subst tensor_loop.simps) simp

lemma tensor_loop_abort:
  assumes "i \<le> j" and "j < kNumDimensions kStride" and "\<not> slot_ok kStride tensor j"
  shows "tensor_loop kStride tensor i ms = Inl Abort"
  using assms
proof (induction "j - i" arbitrary: i ms)
  case 0
  then have "i = j" by simp
  with 0 show ?case by (simp add: tensor_loop_step)
next
  case (Suc d)
  then have "i < kNumDimensions kStride" and "Suc i \<le> j" and "d = j - Suc i"
    by simp_all
  with Suc show ?case
    by (simp add: tensor_loop_step)
qed

lemma tensor_loop_success:
  assumes "\<forall>j. i \<le> j \<and> j < kNumDimensions kStride \<longrightarrow> slot_ok kStride tensor j"
  shows "\<exists>ms'. tensor_loop kStride tensor i ms = Inr ms'
           \<and> length ms' = length ms
           \<and> (\<forall>j<length ms. ms' ! j =
                 (if i \<le> j \<and> j < kNumDimensions kStride \<and> kStride ! j = - 1
                     \<and> j < kVariableStrides kStride
                  then scast (stride tensor j) else ms ! j))"
  using assms
proof (induction "kNumDimensions kStride - i" arbitrary: i ms)
  case 0
  then have "kNumDimensions kStride \<le> i" by simp
  then show ?case by (auto simp: tensor_loop_done)
next
  case (Suc d)
  then have lt: "i < kNumDimensions kStride" and d: "d = kNumDimensions kStride - Suc i"
    by simp_all
  have ok: "slot_ok kStride tensor i"
    using Suc.prems lt by simp
  have rest: "\<forall>j. Suc i \<le> j \<and> j < kNumDimensions kStride \<longrightarrow> slot_ok kStride tensor j"
    using Suc.prems by simp
  obtain ms' where
    run: "tensor_loop kStride tensor (Suc i) (slot_store kStride tensor i ms) = Inr ms'"
    and len: "length ms' = length (slot_store kStride tensor i ms)"
    and nth: "\<forall>j<length (slot_store kStride tensor i ms). ms' ! j =
                 (if Suc i \<le> j \<and> j < kNumDimensions kStride \<and> kStride ! j = - 1
                     \<and> j < kVariableStrides kStride
                  then scast (stride tensor j)
                  else slot_store kStride tensor i ms ! j)"
    using Suc.hyps(1) [OF d rest] by blast
  have len': "length (slot_store kStride tensor i ms) = length ms"
    by (simp add: slot_store_def)
  have "\<forall>j<length ms. ms' ! j =
          (if i \<le> j \<and> j < kNumDimensions kStride \<and> kStride ! j = - 1
              \<and> j < kVariableStrides kStride
           then scast (stride tensor j) else ms ! j)"
  proof (intro allI impI)
    fix j assume j: "j < length ms"
    show "ms' ! j =
          (if i \<le> j \<and> j < kNumDimensions kStride \<and> kStride ! j = - 1
              \<and> j < kVariableStrides kStride
           then scast (stride tensor j) else ms ! j)"
    proof (cases "j = i")
      case True
      then show ?thesis
        using nth j len' lt by (simp add: slot_store_def)
    next
      case False
      then have "(Suc i \<le> j) = (i \<le> j)" by auto
      then show ?thesis
        using nth j len' False by (simp add: slot_store_def)
    qed
  qed
  then show ?case
    using run len len' ok lt by (simp add: tensor_loop_step)
qed

lemma tensor_loop_Inr_ok:
  assumes "tensor_loop kStride tensor i ms = Inr ms'"
    and "i \<le> j" and "j < kNumDimensions kStride"
  shows "slot_ok kStride tensor j"
  using assms tensor_loop_abort [of i j kStride tensor ms] by auto

lemma tensor_loop_ignores:
  assumes "i0 < kNumDimensions kStride" and "kStride ! i0 = - 1"
    and "kVariableStrides kStride \<le> i0"
  shows "tensor_loop kStride (tensor\<lparr>tensor_strides := (tensor_strides tensor)[i0 := v]\<rparr>) i ms
         = tensor_loop kStride tensor i ms"
proof (induction "kNumDimensions kStride - i" arbitrary: i ms)
  case 0
  then show ?case by (simp add: tensor_loop_done)
next
  case (Suc d)
  then have lt: "i < kNumDimensions kStride" and d: "d = kNumDimensions kStride - Suc i"
    by simp_all
  let ?t = "tensor\<lparr>tensor_strides := (tensor_strides tensor)[i0 := v]\<rparr>"
  have ok: "slot_ok kStride ?t i = slot_ok kStride tensor i"
    using assms by (cases "i = i0") (simp_all add: slot_ok_def stride_def)
  have st: "slot_store kStride ?t i ms = slot_store kStride tensor i ms"
    using assms by (cases "i = i0") (simp_all add: slot_store_def stride_def)
  show ?case
    using Suc.hyps(1) [OF d] lt ok st by (simp add: tensor_loop_step)
qed

section \<open>Loads and stores\<close>

lemma store_other:
  assumes "\<And>i. i < length bs \<Longrightarrow> p + of_nat i \<noteq> a"
  shows "store mem p bs a = mem a"
  using assms
proof (induction bs arbitrary: mem p)
  case Nil
  then show ?case by simp
next
  case (Cons b bs)
  have "p \<noteq> a"
    using Cons.prems [of 0] by simp
  moreover have "store (mem(p := b)) (p + 1) bs a = (mem(p := b)) a"
  proof (rule Cons.IH)
    fix i assume "i < length bs"
    then show "p + 1 + of_nat i \<noteq> a"
      using Cons.prems [of "Suc i"] by (simp add: add.assoc)
  qed
  ultimately show ?case by simp
qed

lemma load_store:
  assumes "length bs \<le> 2 ^ 64"
  shows "load (store mem p bs) p (length bs) = bs"
  using assms
proof (induction bs arbitrary: mem p)
  case Nil
  then show ?case by simp
next
  case (Cons b bs)
  have "store (mem(p := b)) (p + 1) bs p = (mem(p := b)) p"
  proof (rule store_other)
    fix i assume i: "i < length bs"
    then have "Suc i < 2 ^ 64"
      using Cons.prems by simp
    then have "(of_nat (Suc i) :: 64 word) \<noteq> 0"
      by (intro of_nat_neq_0) simp_all
    then show "p + 1 + of_nat i \<noteq> p"
      by (simp add: add.assoc)
  qed
  moreover have "load (store (mem(p := b)) (p + 1) bs) (p + 1) (length bs) = bs"
    using Cons.prems by (intro Cons.IH) simp
  ultimately show ?case by simp
qed

section \<open>Pointers from coordinates\<close>

text \<open>
  The offset of \<open>doGetPtr\<close> is a sum of products in the type \<open>int\<close>.  As long as the
  sum over the integers fits into 32 bits, its signed value is that sum.
\<close>

lemma offset_no_overflow:
  fixes c :: "int32 list" and s :: "nat \<Rightarrow> int32"
  assumes "- (2 ^ 31) \<le> (\<Sum>j<n. sint (c ! j) * sint (s j))"
    and "(\<Sum>j<n. sint (c ! j) * sint (s j)) < 2 ^ 31"
  shows "sint (\<Sum>j<n. c ! j * s j) = (\<Sum>j<n. sint (c ! j) * sint (s j))"
proof -
  have "(\<Sum>j<n. c ! j * s j) = word_of_int (\<Sum>j<n. sint (c ! j) * sint (s j))"
    by simp
  then have "sint (\<Sum>j<n. c ! j * s j)
             = signed_take_bit 31 (\<Sum>j<n. sint (c ! j) * sint (s j))"
    by (simp only: sint_sbintrunc') simp
  then show ?thesis
    using assms by (simp add: signed_take_bit_int_eq_self)
qed

text \<open>
  C1: for a wrap of any number of dimensions (in particular 1 to 4), with base address
  \<open>m_data\<close>, and one \<open>int\<close> coordinate per dimension, first dimension first, \<open>ptr\<close>
  returns the base address plus the byte offset \<open>\<Sum>i<N. c[i] * S[i]\<close>, where \<open>S[i]\<close> is
  the stored run-time stride for \<open>i < kVariableStrides\<close> and the compile-time constant
  otherwise.  The products and the sum are those of the type \<open>int\<close>, in which the code
  computes the offset before it is added to the pointer.
\<close>

theorem ptr_full_coordinates:
  assumes "length c = kNumDimensions Strides"
  shows "ptr Strides w c
         = Inr (m_data w + scast (\<Sum>i<kNumDimensions Strides. c ! i * stride_at Strides w i))"
  using assms doGetPtr_offset [of c Strides w] by (simp add: ptr_def)

theorem ptr_full_coordinates_witness:
  "length [2, 3, 1, 0 :: int32] = kNumDimensions [- 1, - 1, - 1, 4]
   \<and> ptr [- 1, - 1, - 1, 4] \<lparr>m_data = 4096, m_strides = [6144, 1536, 16]\<rparr> [2, 3, 1, 0]
     = Inr (m_data \<lparr>m_data = 4096, m_strides = [6144, 1536, 16]\<rparr>
            + scast (\<Sum>i<kNumDimensions [- 1, - 1, - 1, 4].
                [2, 3, 1, 0] ! i
                * stride_at [- 1, - 1, - 1, 4] \<lparr>m_data = 4096, m_strides = [6144, 1536, 16]\<rparr> i))"
proof -
  have full: "length [2, 3, 1, 0 :: int32] = kNumDimensions [- 1, - 1, - 1, 4]"
    by (simp add: kNumDimensions_def)
  show ?thesis
    by (rule conjI [OF full ptr_full_coordinates [OF full]])
qed

text \<open>
  When the sum over the integers is in the range of \<open>int\<close>, the address is the base
  address plus that sum.
\<close>

lemma ptr_full_coordinates_exact:
  assumes "length c = kNumDimensions Strides"
    and "- (2 ^ 31) \<le> (\<Sum>i<kNumDimensions Strides. sint (c ! i) * sint (stride_at Strides w i))"
    and "(\<Sum>i<kNumDimensions Strides. sint (c ! i) * sint (stride_at Strides w i)) < 2 ^ 31"
  shows "ptr Strides w c
         = Inr (m_data w
                + word_of_int (\<Sum>i<kNumDimensions Strides. sint (c ! i) * sint (stride_at Strides w i)))"
proof -
  let ?offset = "\<Sum>i<kNumDimensions Strides. c ! i * stride_at Strides w i"
  have "sint ?offset
        = (\<Sum>i<kNumDimensions Strides. sint (c ! i) * sint (stride_at Strides w i))"
    using assms(2,3) by (rule offset_no_overflow)
  moreover have "(scast ?offset :: addr) = word_of_int (sint ?offset)"
    by (rule scast_eq)
  moreover have "ptr Strides w c = Inr (m_data w + scast ?offset)"
    using assms(1) doGetPtr_offset [of c Strides w] by (simp add: ptr_def)
  ultimately show ?thesis
    by (simp only:)
qed

text \<open>
  C2: \<open>ptr\<close> with only the leading \<open>k \<le> N\<close> coordinates returns the pointer that \<open>ptr\<close>
  returns for all \<open>N\<close> coordinates with the trailing ones zero; the coordinates that are
  not given add nothing to the offset.
\<close>

theorem ptr_partial_coordinates:
  assumes "length c \<le> kNumDimensions Strides"
  shows "ptr Strides w c = ptr Strides w (c @ replicate (kNumDimensions Strides - length c) 0)"
proof -
  let ?n = "kNumDimensions Strides"
  let ?c = "c @ replicate (?n - length c) 0"
  have "(\<Sum>j<?n. ?c ! j * stride_at Strides w j)
        = (\<Sum>j = 0..<length c. ?c ! j * stride_at Strides w j)
          + (\<Sum>j = length c..<?n. ?c ! j * stride_at Strides w j)"
    using assms by (simp add: lessThan_atLeast0 sum.atLeastLessThan_concat)
  moreover have "(\<Sum>j = 0..<length c. ?c ! j * stride_at Strides w j)
                 = (\<Sum>j<length c. c ! j * stride_at Strides w j)"
    by (simp add: lessThan_atLeast0 nth_append)
  moreover have "(\<Sum>j = length c..<?n. ?c ! j * stride_at Strides w j) = 0"
    by (rule sum.neutral) (auto simp: nth_append)
  ultimately have "(\<Sum>j<?n. ?c ! j * stride_at Strides w j)
                   = (\<Sum>j<length c. c ! j * stride_at Strides w j)"
    by simp
  moreover have "length ?c = ?n"
    using assms by simp
  ultimately show ?thesis
    using assms doGetPtr_offset [of c Strides w] doGetPtr_offset [of ?c Strides w]
    by (simp add: ptr_def)
qed

theorem ptr_partial_coordinates_witness:
  "length [2, 3 :: int32] \<le> kNumDimensions [- 1, - 1, - 1, 4]
   \<and> ptr [- 1, - 1, - 1, 4] \<lparr>m_data = 4096, m_strides = [6144, 1536, 16]\<rparr> [2, 3]
     = ptr [- 1, - 1, - 1, 4] \<lparr>m_data = 4096, m_strides = [6144, 1536, 16]\<rparr>
         ([2, 3] @ replicate (kNumDimensions [- 1, - 1, - 1, 4] - length [2, 3 :: int32]) 0)"
proof -
  have partial: "length [2, 3 :: int32] \<le> kNumDimensions [- 1, - 1, - 1, 4]"
    by (simp add: kNumDimensions_def)
  show ?thesis
    by (rule conjI [OF partial ptr_partial_coordinates [OF partial]])
qed

text \<open>
  C7: a \<open>Tensor4DWrap<T>\<close> with \<open>sizeof(T) = 4\<close>, that is strides \<open>(-1, -1, -1, 4)\<close>,
  constructed from the base address \<open>P\<close> and the run-time strides \<open>(6144, 1536, 16)\<close>:
  \<open>ptr(2, 3, 1, 0)\<close> is \<open>P + 16912\<close>.
\<close>

theorem tensor4d_scenario:
  "TensorWrap_data (Tensor4DWrap 4) P [6144, 1536, 16]
     = Inr \<lparr>m_data = P, m_strides = [6144, 1536, 16]\<rparr>
   \<and> ptr (Tensor4DWrap 4) \<lparr>m_data = P, m_strides = [6144, 1536, 16]\<rparr> [2, 3, 1, 0]
     = Inr (P + 16912)"
  by (simp add: TensorWrap_data_def Tensor4DWrap_def ptr_def doGetPtr_def static_assert_def
      kVariableStrides_def kNumDimensions_def offset_loop.simps Let_def)

lemma doGetPtr_default:
  assumes "length c \<le> kNumDimensions Strides"
  shows "doGetPtr Strides (TensorWrap_default Strides) c
         = Inr (scast (\<Sum>i = kVariableStrides Strides..<length c. c ! i * Strides ! i))"
proof -
  have "(\<Sum>j = 0..<min (length c) (kVariableStrides Strides).
            c ! j * replicate (kVariableStrides Strides) 0 ! j) = 0"
    by (rule sum.neutral) simp
  then show ?thesis
    using assms
    by (simp add: doGetPtr_def static_assert_def offset_loop_sum TensorWrap_default_def
        min_def Let_def)
qed

text \<open>
  C10: a default-constructed wrap, of any stride specification, has a null base address
  and all its stored run-time strides zero.  Hence \<open>ptr()\<close> without coordinates is the
  null pointer, and \<open>ptr(c0, ..., ck)\<close> is the null address plus the contributions
  \<open>c[i] * kStride[i]\<close> of the coordinates from index \<open>kVariableStrides\<close> on only.
\<close>

theorem default_constructed:
  "m_data (TensorWrap_default Strides) = 0
   \<and> m_strides (TensorWrap_default Strides) = replicate (kVariableStrides Strides) 0
   \<and> ptr Strides (TensorWrap_default Strides) [] = Inr 0
   \<and> (length c \<le> kNumDimensions Strides \<longrightarrow>
        ptr Strides (TensorWrap_default Strides) c
        = Inr (0 + scast (\<Sum>i = kVariableStrides Strides..<length c. c ! i * Strides ! i)))"
  using doGetPtr_default [of c Strides] doGetPtr_default [of "[]" Strides]
  by (simp add: ptr_def TensorWrap_default_def)

theorem default_constructed_witness:
  "length [7, 5, 3 :: int32] \<le> kNumDimensions [- 1, 12, 4]
   \<and> ptr [- 1, 12, 4] (TensorWrap_default [- 1, 12, 4]) [7, 5, 3] = Inr 72"
proof -
  have "length [7, 5, 3 :: int32] \<le> kNumDimensions [- 1, 12, 4]"
    by (simp add: kNumDimensions_def)
  moreover have "kVariableStrides [- 1, 12, 4] = 1"
    by (simp add: kVariableStrides_def)
  moreover have "(\<Sum>i = 1..<3. [7, 5, 3 :: int32] ! i * [- 1, 12, 4] ! i) = 72"
    by (simp add: sum.atLeast_Suc_lessThan numeral_3_eq_3)
  ultimately show ?thesis
    using default_constructed [of "[- 1, 12, 4]" "[7, 5, 3]"] by simp
qed

section \<open>The subscript operator\<close>

lemma doGetPtr_2:
  assumes "2 \<le> kNumDimensions Strides"
  shows "doGetPtr Strides w [a, b]
         = Inr (m_data w + scast (a * stride_at Strides w 0 + b * stride_at Strides w 1))"
  using assms doGetPtr_offset [of "[a, b]" Strides w]
  by (simp add: lessThan_Suc add_ac)

lemma doGetPtr_3:
  assumes "3 \<le> kNumDimensions Strides"
  shows "doGetPtr Strides w [a, b, c]
         = Inr (m_data w + scast (a * stride_at Strides w 0 + b * stride_at Strides w 1
                                  + c * stride_at Strides w 2))"
  using assms doGetPtr_offset [of "[a, b, c]" Strides w]
  by (simp add: lessThan_Suc numeral_2_eq_2 add_ac)

lemma doGetPtr_4:
  assumes "4 \<le> kNumDimensions Strides"
  shows "doGetPtr Strides w [a, b, c, d]
         = Inr (m_data w + scast (a * stride_at Strides w 0 + b * stride_at Strides w 1
                                  + c * stride_at Strides w 2 + d * stride_at Strides w 3))"
  using assms doGetPtr_offset [of "[a, b, c, d]" Strides w]
  by (simp add: lessThan_Suc numeral_2_eq_2 numeral_3_eq_3 add_ac)

text \<open>
  C5: for a wrap of 2, 3 or 4 dimensions and a coordinate vector with as many components,
  read access through \<open>operator[]\<close> refers to the element at the byte offset
  \<open>\<Sum>i. coordinate[i] * stride[i]\<close>, coordinates first dimension first, where the
  components of the vector are taken in reversed order (\<open>x\<close> addresses the last, fastest
  changing dimension): \<open>V[c]\<close> is the location of \<open>V.ptr(c.y, c.x)\<close>,
  \<open>V.ptr(c.z, c.y, c.x)\<close> and \<open>V.ptr(c.w, c.z, c.y, c.x)\<close>.
\<close>

theorem subscript_vector_components:
  "(kNumDimensions S2 = 2 \<longrightarrow>
      subscript S2 v2 (int2 x2 y2) = ptr S2 v2 [y2, x2]
      \<and> read_at S2 v2 n2 mem2 (int2 x2 y2)
        = Inr (load mem2
            (m_data v2 + scast (y2 * stride_at S2 v2 0 + x2 * stride_at S2 v2 1)) n2))
   \<and> (kNumDimensions S3 = 3 \<longrightarrow>
      subscript S3 v3 (int3 x3 y3 z3) = ptr S3 v3 [z3, y3, x3]
      \<and> read_at S3 v3 n3 mem3 (int3 x3 y3 z3)
        = Inr (load mem3
            (m_data v3 + scast (z3 * stride_at S3 v3 0 + y3 * stride_at S3 v3 1
                                + x3 * stride_at S3 v3 2)) n3))
   \<and> (kNumDimensions S4 = 4 \<longrightarrow>
      subscript S4 v4 (int4 x4 y4 z4 w4) = ptr S4 v4 [w4, z4, y4, x4]
      \<and> read_at S4 v4 n4 mem4 (int4 x4 y4 z4 w4)
        = Inr (load mem4
            (m_data v4 + scast (w4 * stride_at S4 v4 0 + z4 * stride_at S4 v4 1
                                + y4 * stride_at S4 v4 2 + x4 * stride_at S4 v4 3)) n4))"
  by (simp add: ptr_def read_at_def doGetPtr_2 doGetPtr_3 doGetPtr_4)

theorem subscript_vector_components_witness:
  "kNumDimensions [- 1, 4] = 2 \<and> kNumDimensions [- 1, - 1, 4] = 3
   \<and> kNumDimensions [- 1, - 1, - 1, 4] = 4
   \<and> subscript [- 1, 4] \<lparr>m_data = 4096, m_strides = [640]\<rparr> (int2 10 5)
     = ptr [- 1, 4] \<lparr>m_data = 4096, m_strides = [640]\<rparr> [5, 10]
   \<and> subscript [- 1, - 1, 4] \<lparr>m_data = 4096, m_strides = [1536, 16]\<rparr> (int3 2 1 3)
     = ptr [- 1, - 1, 4] \<lparr>m_data = 4096, m_strides = [1536, 16]\<rparr> [3, 1, 2]
   \<and> subscript [- 1, - 1, - 1, 4] \<lparr>m_data = 4096, m_strides = [6144, 1536, 16]\<rparr> (int4 0 1 3 2)
     = ptr [- 1, - 1, - 1, 4] \<lparr>m_data = 4096, m_strides = [6144, 1536, 16]\<rparr> [2, 3, 1, 0]"
  using subscript_vector_components [of "[- 1, 4]" "\<lparr>m_data = 4096, m_strides = [640]\<rparr>" 10 5
      _ _ "[- 1, - 1, 4]" "\<lparr>m_data = 4096, m_strides = [1536, 16]\<rparr>" 2 1 3
      _ _ "[- 1, - 1, - 1, 4]" "\<lparr>m_data = 4096, m_strides = [6144, 1536, 16]\<rparr>" 0 1 3 2]
  by (simp add: kNumDimensions_def)

section \<open>Construction from an image\<close>

text \<open>
  C8: a \<open>Tensor2DWrap<T>\<close> with \<open>sizeof(T) = 4\<close> (one run-time stride, then the constant
  stride 4) constructed from the plane of a strided image takes the base pointer and the
  row stride of the plane; with the row stride 640, \<open>ptr(5, 10)\<close> is the base pointer
  plus 3240.  The constructor exists only for a wrap of two dimensions with exactly one
  run-time stride.
\<close>

theorem image_constructor:
  "TensorWrap_image (Tensor2DWrap 4) plane0
     = Inr \<lparr>m_data = basePtr plane0, m_strides = [rowStride plane0]\<rparr>
   \<and> (case TensorWrap_image (Tensor2DWrap 4) \<lparr>basePtr = B, rowStride = 640\<rparr> of
        Inl e \<Rightarrow> Inl e
      | Inr V \<Rightarrow> ptr (Tensor2DWrap 4) V [5, 10]) = Inr (B + 3240)
   \<and> ((\<exists>V. TensorWrap_image Strides plane = Inr V)
        = (kNumDimensions Strides = 2 \<and> kVariableStrides Strides = 1))"
proof -
  have "TensorWrap_image (Tensor2DWrap 4) plane0
        = Inr \<lparr>m_data = basePtr plane0, m_strides = [rowStride plane0]\<rparr>" for plane0
    by (simp add: TensorWrap_image_def Tensor2DWrap_def static_assert_def kVariableStrides_def
        kNumDimensions_def TensorWrap_default_def)
  moreover have "ptr (Tensor2DWrap 4) \<lparr>m_data = B, m_strides = [640]\<rparr> [5, 10] = Inr (B + 3240)"
    by (simp add: Tensor2DWrap_def ptr_def doGetPtr_def static_assert_def kVariableStrides_def
        kNumDimensions_def offset_loop.simps Let_def)
  moreover have "(\<exists>V. TensorWrap_image Strides plane = Inr V)
        = (kNumDimensions Strides = 2 \<and> kVariableStrides Strides = 1)"
    by (auto simp: TensorWrap_image_def static_assert_def Let_def)
  ultimately show ?thesis
    by simp
qed

section \<open>The mutable wrap\<close>

lemma doGetPtr_mutable_eq: "doGetPtr_mutable Strides w c = doGetPtr Strides w c"
  by (simp add: doGetPtr_mutable_def const_cast_def split: sum.split)

lemma subscript_mutable_eq: "subscript_mutable Strides w c = subscript Strides w c"
  by (cases c) (simp_all add: doGetPtr_mutable_eq)

text \<open>
  C6: a value \<open>v\<close> written through the mutable wrap at the coordinate \<open>c\<close> is the value
  read at \<open>c\<close> through a constant wrap with the same base address and run-time strides;
  the accessors of the mutable wrap return the addresses that those of the constant wrap
  return for the same coordinates.  A value is its \<open>sizeof(T)\<close> bytes, fewer than the
  address space has.
\<close>

theorem mutable_write_immutable_read:
  assumes "m_data r = m_data w" and "m_strides r = m_strides w"
    and "length v \<le> 2 ^ 64"
    and "write_at Strides w mem c v = Inr mem'"
  shows "read_at Strides r (length v) mem' c = Inr v
         \<and> subscript_mutable Strides w c = subscript Strides r c
         \<and> ptr_mutable Strides w cs = ptr Strides r cs"
proof -
  have same: "r = w"
    using assms(1,2) by simp
  obtain p where p: "subscript Strides w c = Inr p" and mem': "mem' = store mem p v"
    using assms(4)
    by (auto simp: write_at_def subscript_mutable_eq split: sum.splits)
  have "load mem' p (length v) = v"
    using assms(3) by (simp add: mem' load_store)
  then have "read_at Strides r (length v) mem' c = Inr v"
    by (simp add: read_at_def same p)
  then show ?thesis
    by (simp add: same subscript_mutable_eq ptr_mutable_def ptr_def doGetPtr_mutable_eq)
qed

theorem mutable_write_immutable_read_witness:
  "length [1, 2, 3, 4 :: byte] \<le> 2 ^ 64
   \<and> write_at [- 1, 4] \<lparr>m_data = 4096, m_strides = [640]\<rparr> (\<lambda>a. 0) (int2 10 5) [1, 2, 3, 4]
     = Inr (store (\<lambda>a. 0) 7336 [1, 2, 3, 4])
   \<and> read_at [- 1, 4] \<lparr>m_data = 4096, m_strides = [640]\<rparr> (length [1, 2, 3, 4 :: byte])
       (store (\<lambda>a. 0) 7336 [1, 2, 3, 4]) (int2 10 5)
     = Inr [1, 2, 3, 4]"
proof -
  have len: "length [1, 2, 3, 4 :: byte] \<le> 2 ^ 64"
    by simp
  have wr: "write_at [- 1, 4] \<lparr>m_data = 4096, m_strides = [640]\<rparr> (\<lambda>a. 0) (int2 10 5) [1, 2, 3, 4]
     = Inr (store (\<lambda>a. 0) 7336 [1, 2, 3, 4])"
    by (simp add: write_at_def doGetPtr_mutable_def const_cast_def doGetPtr_def static_assert_def
        kVariableStrides_def kNumDimensions_def offset_loop.simps Let_def)
  show ?thesis
    using len wr mutable_write_immutable_read [OF refl refl len wr]
    by simp
qed

section \<open>Construction from a tensor descriptor\<close>

lemma TensorWrap_tensor_unfold:
  "TensorWrap_tensor Strides tensor =
     (if kNumDimensions Strides \<le> rank tensor then
        (case tensor_loop Strides tensor 0 (replicate (kVariableStrides Strides) 0) of
           Inl e \<Rightarrow> Inl e
         | Inr ms \<Rightarrow> Inr \<lparr>m_data = tensor_basePtr tensor, m_strides = ms\<rparr>)
      else Inl Abort)"
  by (simp add: TensorWrap_tensor_def NVCV_ASSERT_def TensorWrap_default_def Let_def
      split: sum.split)

lemma TensorWrap_tensor_abort:
  assumes "j < kNumDimensions Strides" and "\<not> slot_ok Strides tensor j"
  shows "TensorWrap_tensor Strides tensor = Inl Abort"
  using assms tensor_loop_abort [of 0 j Strides tensor]
  by (simp add: TensorWrap_tensor_unfold)

lemma TensorWrap_tensor_success:
  assumes "kNumDimensions Strides \<le> rank tensor"
    and "\<forall>j<kNumDimensions Strides. slot_ok Strides tensor j"
  shows "\<exists>ms. TensorWrap_tensor Strides tensor
                = Inr \<lparr>m_data = tensor_basePtr tensor, m_strides = ms\<rparr>
             \<and> length ms = kVariableStrides Strides
             \<and> (\<forall>j<kVariableStrides Strides.
                   ms ! j = (if Strides ! j = - 1 then scast (stride tensor j) else 0))"
proof -
  have "\<forall>j. 0 \<le> j \<and> j < kNumDimensions Strides \<longrightarrow> slot_ok Strides tensor j"
    using assms(2) by simp
  from tensor_loop_success [OF this, of "replicate (kVariableStrides Strides) 0"]
  obtain ms where run: "tensor_loop Strides tensor 0 (replicate (kVariableStrides Strides) 0) = Inr ms"
    and len: "length ms = kVariableStrides Strides"
    and nth: "\<forall>j<kVariableStrides Strides. ms ! j =
                (if j < kNumDimensions Strides \<and> Strides ! j = - 1
                 then scast (stride tensor j) else 0)"
    by auto
  have "\<forall>j<kVariableStrides Strides.
          ms ! j = (if Strides ! j = - 1 then scast (stride tensor j) else 0)"
  proof (intro allI impI)
    fix j assume j: "j < kVariableStrides Strides"
    then have "j < kNumDimensions Strides"
      using kVariableStrides_le [of Strides] by simp
    then show "ms ! j = (if Strides ! j = - 1 then scast (stride tensor j) else 0)"
      using nth j by simp
  qed
  then show ?thesis
    using assms(1) run len by (simp add: TensorWrap_tensor_unfold)
qed

lemma TensorWrap_tensor_Inr:
  assumes "TensorWrap_tensor Strides tensor = Inr V"
  shows "kNumDimensions Strides \<le> rank tensor"
    and "j < kNumDimensions Strides \<Longrightarrow> slot_ok Strides tensor j"
proof -
  show "kNumDimensions Strides \<le> rank tensor"
    using assms by (simp add: TensorWrap_tensor_unfold split: if_splits)
  show "slot_ok Strides tensor j" if "j < kNumDimensions Strides"
    using assms TensorWrap_tensor_abort [OF that, of tensor] by auto
qed

text \<open>
  The narrowing conversion from \<open>int64_t\<close> to \<open>int\<close> keeps a value that is in the range
  of \<open>int\<close>.
\<close>

lemma narrowing_in_range:
  fixes s :: int64
  assumes "- (2 ^ 31) \<le> sint s" and "sint s \<le> TypeTraits_int_max"
  shows "sint (scast s :: int32) = sint s"
  using assms
  by (simp add: signed_scast_eq TypeTraits_int_max_def signed_take_bit_int_eq_self)

text \<open>
  C3, as the code has it: when the stride specification has a constant stride at slot
  \<open>i\<close> and the descriptor reports another stride at axis \<open>i\<close>, the constructor aborts in
  an assertion and produces no wrap.  When the rank of the descriptor is at least the
  number of dimensions, the reported stride of every constant slot is the constant, and
  the reported stride of every run-time slot below \<open>kVariableStrides\<close> is at most
  \<open>TypeTraits<int>::max\<close>, construction succeeds; the constant strides are those of the
  type, unchanged.
\<close>

theorem tensor_constructor_constant_strides:
  "(i < kNumDimensions S1 \<and> S1 ! i \<noteq> - 1 \<and> i < rank t1 \<and> stride t1 i \<noteq> scast (S1 ! i)
      \<longrightarrow> TensorWrap_tensor S1 t1 = Inl Abort)
   \<and> (kNumDimensions S2 \<le> rank t2
       \<and> (\<forall>j<kNumDimensions S2. S2 ! j \<noteq> - 1 \<longrightarrow> stride t2 j = scast (S2 ! j))
       \<and> (\<forall>j<kVariableStrides S2. S2 ! j = - 1 \<longrightarrow> sint (stride t2 j) \<le> TypeTraits_int_max)
      \<longrightarrow> (\<exists>V. TensorWrap_tensor S2 t2 = Inr V \<and> m_data V = tensor_basePtr t2
             \<and> (\<forall>j. kVariableStrides S2 \<le> j \<longrightarrow> stride_at S2 V j = S2 ! j)))"
proof (intro conjI impI)
  assume "i < kNumDimensions S1 \<and> S1 ! i \<noteq> - 1 \<and> i < rank t1 \<and> stride t1 i \<noteq> scast (S1 ! i)"
  then have "i < kNumDimensions S1" and "\<not> slot_ok S1 t1 i"
    by (simp_all add: slot_ok_def)
  then show "TensorWrap_tensor S1 t1 = Inl Abort"
    by (rule TensorWrap_tensor_abort)
next
  assume a: "kNumDimensions S2 \<le> rank t2
       \<and> (\<forall>j<kNumDimensions S2. S2 ! j \<noteq> - 1 \<longrightarrow> stride t2 j = scast (S2 ! j))
       \<and> (\<forall>j<kVariableStrides S2. S2 ! j = - 1 \<longrightarrow> sint (stride t2 j) \<le> TypeTraits_int_max)"
  then have "\<forall>j<kNumDimensions S2. slot_ok S2 t2 j"
    by (simp add: slot_ok_def)
  with a obtain ms where "TensorWrap_tensor S2 t2 = Inr \<lparr>m_data = tensor_basePtr t2, m_strides = ms\<rparr>"
    using TensorWrap_tensor_success [of S2 t2] by blast
  then show "\<exists>V. TensorWrap_tensor S2 t2 = Inr V \<and> m_data V = tensor_basePtr t2
             \<and> (\<forall>j. kVariableStrides S2 \<le> j \<longrightarrow> stride_at S2 V j = S2 ! j)"
    by (simp add: stride_at_def)
qed

theorem tensor_constructor_constant_strides_witness:
  "TensorWrap_tensor [- 1, 4] \<lparr>tensor_basePtr = 4096, tensor_strides = [640, 3]\<rparr> = Inl Abort
   \<and> (\<exists>V. TensorWrap_tensor [- 1, 4] \<lparr>tensor_basePtr = 4096, tensor_strides = [640, 4]\<rparr> = Inr V
          \<and> m_data V = tensor_basePtr \<lparr>tensor_basePtr = 4096, tensor_strides = [640, 4]\<rparr>)"
proof -
  let ?S = "[- 1, 4] :: int32 list"
  let ?t1 = "\<lparr>tensor_basePtr = 4096, tensor_strides = [640, 3]\<rparr>"
  let ?t2 = "\<lparr>tensor_basePtr = 4096, tensor_strides = [640, 4]\<rparr>"
  have h1: "1 < kNumDimensions ?S \<and> ?S ! 1 \<noteq> - 1 \<and> 1 < rank ?t1
            \<and> stride ?t1 1 \<noteq> scast (?S ! 1)"
    by (simp add: kNumDimensions_def rank_def stride_def)
  have h2: "kNumDimensions ?S \<le> rank ?t2
       \<and> (\<forall>j<kNumDimensions ?S. ?S ! j \<noteq> - 1 \<longrightarrow> stride ?t2 j = scast (?S ! j))
       \<and> (\<forall>j<kVariableStrides ?S. ?S ! j = - 1 \<longrightarrow> sint (stride ?t2 j) \<le> TypeTraits_int_max)"
    by (simp add: kNumDimensions_def kVariableStrides_def rank_def stride_def less_Suc_eq
        TypeTraits_int_max_def all_conj_distrib)
  show ?thesis
    using tensor_constructor_constant_strides [of 1 ?S ?t1 ?S ?t2] h1 h2 by blast
qed

text \<open>
  C3 as stated, with success whenever all constant slots match, fails: with the strides
  \<open>(-1, 4)\<close> and a descriptor that reports \<open>(2147483648, 4)\<close>, the constant slot matches
  and the assertion on the run-time slot aborts.
\<close>

theorem tensor_constructor_matching_constants_counterexample:
  "stride \<lparr>tensor_basePtr = 0, tensor_strides = [2147483648, 4]\<rparr> 1 = scast ([- 1, 4 :: int32] ! 1)
   \<and> TensorWrap_tensor [- 1, 4] \<lparr>tensor_basePtr = 0, tensor_strides = [2147483648, 4]\<rparr>
     = Inl Abort"
  by (simp add: TensorWrap_tensor_def NVCV_ASSERT_def rank_def stride_def kNumDimensions_def
      kVariableStrides_def TensorWrap_default_def tensor_loop.simps TypeTraits_int_max_def)

text \<open>
  C4, as the code has it: for a run-time slot \<open>i < kVariableStrides\<close> the constructor
  asserts that the reported stride at axis \<open>i\<close> is at most \<open>TypeTraits<int>::max\<close>, and
  aborts when it is larger.  On success the stored stride at slot \<open>i\<close> is the reported
  stride narrowed to \<open>int\<close>; it is the reported stride itself whenever that is also at
  least \<open>-2^31\<close>.
\<close>

theorem tensor_constructor_runtime_strides:
  "(i < kVariableStrides S1 \<and> S1 ! i = - 1 \<and> i < rank t1
      \<and> TypeTraits_int_max < sint (stride t1 i)
      \<longrightarrow> TensorWrap_tensor S1 t1 = Inl Abort)
   \<and> (k < kVariableStrides S2 \<and> S2 ! k = - 1 \<and> TensorWrap_tensor S2 t2 = Inr V
      \<longrightarrow> sint (stride t2 k) \<le> TypeTraits_int_max
          \<and> m_strides V ! k = scast (stride t2 k)
          \<and> (- (2 ^ 31) \<le> sint (stride t2 k) \<longrightarrow> sint (m_strides V ! k) = sint (stride t2 k)))"
proof (intro conjI impI)
  assume a: "i < kVariableStrides S1 \<and> S1 ! i = - 1 \<and> i < rank t1
      \<and> TypeTraits_int_max < sint (stride t1 i)"
  then have "i < kNumDimensions S1"
    using kVariableStrides_le [of S1] by simp
  moreover have "\<not> slot_ok S1 t1 i"
    using a by (simp add: slot_ok_def)
  ultimately show "TensorWrap_tensor S1 t1 = Inl Abort"
    by (rule TensorWrap_tensor_abort)
next
  assume a: "k < kVariableStrides S2 \<and> S2 ! k = - 1 \<and> TensorWrap_tensor S2 t2 = Inr V"
  then have k: "k < kNumDimensions S2"
    using kVariableStrides_le [of S2] by simp
  have run: "TensorWrap_tensor S2 t2 = Inr V"
    using a by simp
  have ok: "\<forall>j<kNumDimensions S2. slot_ok S2 t2 j"
    using TensorWrap_tensor_Inr(2) [OF run] by simp
  then have "slot_ok S2 t2 k"
    using k by simp
  then show le: "sint (stride t2 k) \<le> TypeTraits_int_max"
    using a by (simp add: slot_ok_def)
  obtain ms where "TensorWrap_tensor S2 t2 = Inr \<lparr>m_data = tensor_basePtr t2, m_strides = ms\<rparr>"
    and "\<forall>j<kVariableStrides S2. ms ! j = (if S2 ! j = - 1 then scast (stride t2 j) else 0)"
    using TensorWrap_tensor_success [OF TensorWrap_tensor_Inr(1) [OF run] ok] by blast
  then show stored: "m_strides V ! k = scast (stride t2 k)"
    using a by auto
  show "sint (m_strides V ! k) = sint (stride t2 k)" if "- (2 ^ 31) \<le> sint (stride t2 k)"
    using that le by (simp add: stored narrowing_in_range)
qed

theorem tensor_constructor_runtime_strides_witness:
  "TensorWrap_tensor [- 1, 4] \<lparr>tensor_basePtr = 4096, tensor_strides = [2147483648, 4]\<rparr>
     = Inl Abort
   \<and> TensorWrap_tensor [- 1, 4] \<lparr>tensor_basePtr = 4096, tensor_strides = [640, 4]\<rparr>
     = Inr \<lparr>m_data = 4096, m_strides = [640]\<rparr>
   \<and> sint (m_strides \<lparr>m_data = 4096, m_strides = [640]\<rparr> ! 0)
     = sint (stride \<lparr>tensor_basePtr = 4096, tensor_strides = [640, 4]\<rparr> 0)"
proof -
  let ?S = "[- 1, 4] :: int32 list"
  let ?t1 = "\<lparr>tensor_basePtr = 4096, tensor_strides = [2147483648, 4]\<rparr>"
  let ?t2 = "\<lparr>tensor_basePtr = 4096, tensor_strides = [640, 4]\<rparr>"
  let ?V = "\<lparr>m_data = 4096, m_strides = [640]\<rparr>"
  have h1: "0 < kVariableStrides ?S \<and> ?S ! 0 = - 1 \<and> 0 < rank ?t1
            \<and> TypeTraits_int_max < sint (stride ?t1 0)"
    by (simp add: kVariableStrides_def rank_def stride_def TypeTraits_int_max_def)
  have run: "TensorWrap_tensor ?S ?t2 = Inr ?V"
    by (simp add: TensorWrap_tensor_def NVCV_ASSERT_def rank_def stride_def kNumDimensions_def
        kVariableStrides_def TensorWrap_default_def tensor_loop.simps TypeTraits_int_max_def)
  have h2: "0 < kVariableStrides ?S \<and> ?S ! 0 = - 1 \<and> TensorWrap_tensor ?S ?t2 = Inr ?V"
    using run by (simp add: kVariableStrides_def)
  have lower: "- (2 ^ 31) \<le> sint (stride ?t2 0)"
    by (simp add: stride_def)
  show ?thesis
    using tensor_constructor_runtime_strides [of 0 ?S ?t1 0 ?S ?t2 ?V] h1 h2 lower run
    by blast
qed

text \<open>
  C4 as stated, with an assertion on the whole range of \<open>int\<close>, fails.  There is no
  assertion on the lower end of the range: the reported stride
  \<open>-2147483649\<close> is below the range of \<open>int\<close>, construction succeeds, and the stored
  stride is \<open>2147483647\<close>.
\<close>

theorem tensor_constructor_lower_bound_counterexample:
  "sint (stride \<lparr>tensor_basePtr = 4096, tensor_strides = [- 2147483649, 4]\<rparr> 0) < - (2 ^ 31)
   \<and> TensorWrap_tensor [- 1, 4] \<lparr>tensor_basePtr = 4096, tensor_strides = [- 2147483649, 4]\<rparr>
     = Inr \<lparr>m_data = 4096, m_strides = [2147483647]\<rparr>
   \<and> sint (m_strides \<lparr>m_data = 4096, m_strides = [2147483647]\<rparr> ! 0)
     \<noteq> sint (stride \<lparr>tensor_basePtr = 4096, tensor_strides = [- 2147483649, 4]\<rparr> 0)"
  by (simp add: TensorWrap_tensor_def NVCV_ASSERT_def rank_def stride_def kNumDimensions_def
      kVariableStrides_def TensorWrap_default_def tensor_loop.simps TypeTraits_int_max_def)

text \<open>
  C9: when a slot \<open>i \<ge> kVariableStrides\<close> is marked run-time (\<open>-1\<close>), the constructor
  neither asserts anything about the reported stride at axis \<open>i\<close> nor copies it: the
  iteration for slot \<open>i\<close> passes and leaves \<open>m_strides\<close> as it is, and the outcome of
  the construction is the same for every value \<open>v\<close> reported at that axis.
\<close>

theorem tensor_constructor_misplaced_runtime_slot:
  assumes "i < kNumDimensions Strides" and "Strides ! i = - 1"
    and "kVariableStrides Strides \<le> i"
  shows "TensorWrap_tensor Strides (tensor\<lparr>tensor_strides := (tensor_strides tensor)[i := v]\<rparr>)
         = TensorWrap_tensor Strides tensor
         \<and> slot_ok Strides tensor i \<and> slot_store Strides tensor i ms = ms"
  using assms tensor_loop_ignores [OF assms, of tensor v 0]
  by (simp add: TensorWrap_tensor_unfold rank_def slot_ok_def slot_store_def split: sum.split)

theorem tensor_constructor_misplaced_runtime_slot_witness:
  "TensorWrap_tensor [4, - 1]
      (\<lparr>tensor_basePtr = 4096, tensor_strides = [4, 1]\<rparr>
        \<lparr>tensor_strides := (tensor_strides \<lparr>tensor_basePtr = 4096, tensor_strides = [4, 1]\<rparr>)
            [1 := 1099511627776]\<rparr>)
     = TensorWrap_tensor [4, - 1] \<lparr>tensor_basePtr = 4096, tensor_strides = [4, 1]\<rparr>
   \<and> TensorWrap_tensor [4, - 1] \<lparr>tensor_basePtr = 4096, tensor_strides = [4, 1099511627776]\<rparr>
     = Inr \<lparr>m_data = 4096, m_strides = [0]\<rparr>"
proof -
  let ?S = "[4, - 1] :: int32 list"
  have h: "1 < kNumDimensions ?S" "?S ! 1 = - 1" "kVariableStrides ?S \<le> 1"
    by (simp_all add: kNumDimensions_def kVariableStrides_def)
  have "TensorWrap_tensor ?S \<lparr>tensor_basePtr = 4096, tensor_strides = [4, 1099511627776]\<rparr>
     = Inr \<lparr>m_data = 4096, m_strides = [0]\<rparr>"
    by (simp add: TensorWrap_tensor_def NVCV_ASSERT_def rank_def stride_def kNumDimensions_def
        kVariableStrides_def TensorWrap_default_def tensor_loop.simps TypeTraits_int_max_def)
  then show ?thesis
    using tensor_constructor_misplaced_runtime_slot [OF h,
        of "\<lparr>tensor_basePtr = 4096, tensor_strides = [4, 1]\<rparr>" 1099511627776]
    by blast
qed

end
